theory Spec2Isabelle
  imports Main "HOL-Library.Sublist" "HOL-Library.AList"
begin

section \<open>Python strings and builtins used by pyinfra/facts/files.py\<close>

text \<open>
  A Python string is a \<^typ>\<open>string\<close>; one \<^typ>\<open>char\<close> stands for one code point
  below 256. The builtins are those of Python 3.
\<close>

text \<open>The code points below 256 for which \<^verbatim>\<open>str.isspace\<close> holds.\<close>

definition is_space :: "char \<Rightarrow> bool" where
  "is_space c = (c \<in> set [CHR 0x09, CHR 0x0A, CHR 0x0B, CHR 0x0C, CHR 0x0D,
     CHR 0x1C, CHR 0x1D, CHR 0x1E, CHR 0x1F, CHR 0x20, CHR 0x85, CHR 0xA0])"

definition is_digit :: "char \<Rightarrow> bool" where
  "is_digit c = (c \<in> set ''0123456789'')"

text \<open>The pattern class \<^verbatim>\<open>[a-zA-Z0-9]\<close>.\<close>

definition is_alnum :: "char \<Rightarrow> bool" where
  "is_alnum c = (c \<in> set
     ''abcdefghijklmnopqrstuvwxyzABCDEFGHIJKLMNOPQRSTUVWXYZ0123456789'')"

text \<open>\<^verbatim>\<open>s.strip(chars)\<close>: every leading and every trailing character of the set goes.\<close>

definition py_strip :: "string \<Rightarrow> string \<Rightarrow> string" where
  "py_strip s chars =
     rev (dropWhile (\<lambda>c. c \<in> set chars) (rev (dropWhile (\<lambda>c. c \<in> set chars) s)))"

text \<open>\<^verbatim>\<open>s.strip()\<close>.\<close>

definition py_strip_ws :: "string \<Rightarrow> string" where
  "py_strip_ws s = rev (dropWhile is_space (rev (dropWhile is_space s)))"

text \<open>
  \<^verbatim>\<open>s.split(None, maxsplit)\<close>: runs of whitespace separate the words; after
  \<open>maxsplit\<close> words the rest of the string, its leading whitespace dropped, is the last
  element (trailing whitespace kept); an all-whitespace rest adds nothing.
\<close>

fun split_ws :: "nat \<Rightarrow> string \<Rightarrow> string list" where
  "split_ws 0 s =
     (let r = dropWhile is_space s in if r = [] then [] else [r])"
| "split_ws (Suc n) s =
     (let r = dropWhile is_space s in
      if r = [] then []
      else takeWhile (\<lambda>c. \<not> is_space c) r
             # split_ws n (dropWhile (\<lambda>c. \<not> is_space c) r))"

text \<open>
  \<^verbatim>\<open>s.split(sep)\<close> for a separator string: the occurrences are found from the left
  and do not overlap; \<open>acc\<close> is the piece being read.
\<close>

fun split_sep :: "string \<Rightarrow> string \<Rightarrow> string \<Rightarrow> string list" where
  "split_sep sep acc [] = [acc]"
| "split_sep sep acc (c # cs) =
     (if sep \<noteq> [] \<and> prefix sep (c # cs)
      then acc # split_sep sep [] (drop (length sep) (c # cs))
      else split_sep sep (acc @ [c]) cs)"

definition py_split :: "string \<Rightarrow> string \<Rightarrow> string list" where
  "py_split s sep = split_sep sep [] s"

text \<open>
  \<^verbatim>\<open>int(s)\<close> on a string: surrounding whitespace is ignored, one sign is allowed, and
  the digits may be grouped by single underscores. \<open>None\<close> stands for the ValueError.
\<close>

fun digits_us :: "string \<Rightarrow> string option" where
  "digits_us [] = None"
| "digits_us [c] = (if is_digit c then Some [c] else None)"
| "digits_us (c # d # r) =
     (if \<not> is_digit c then None
      else if d = CHR ''_'' then map_option ((#) c) (digits_us r)
      else map_option ((#) c) (digits_us (d # r)))"

definition digit_val :: "char \<Rightarrow> int" where
  "digit_val c = int (of_char c) - 48"

definition digits_to_int :: "string \<Rightarrow> int" where
  "digits_to_int ds = foldl (\<lambda>n c. 10 * n + digit_val c) 0 ds"

definition py_int :: "string \<Rightarrow> int option" where
  "py_int s =
     (let t = py_strip_ws s;
          neg = (t \<noteq> [] \<and> hd t = CHR ''-'');
          body = (if t \<noteq> [] \<and> (hd t = CHR ''-'' \<or> hd t = CHR ''+'') then tl t else t)
      in case digits_us body of
           None \<Rightarrow> None
         | Some ds \<Rightarrow> Some (if neg then - digits_to_int ds else digits_to_int ds))"

text \<open>
  The exceptions the source can raise. \<open>TimestampError\<close> is what
  \<^verbatim>\<open>datetime.utcfromtimestamp\<close> raises on a timestamp it cannot represent (an
  OverflowError, an OSError or a ValueError, by platform).
\<close>

datatype error = IndexError | KeyError | ValueError | AttributeError | TimestampError

section \<open>PermissionCodec: \<^verbatim>\<open>_parse_mode\<close>\<close>

definition SYMBOL_TO_OCTAL_PERMISSIONS :: "string \<rightharpoonup> string" where
  "SYMBOL_TO_OCTAL_PERMISSIONS = map_of
     [(''rwx'', ''7''), (''rw-'', ''6''), (''r-x'', ''5''), (''r--'', ''4''),
      (''-wx'', ''3''), (''-w-'', ''2''), (''--x'', ''1'')]"

text \<open>
  The loop of \<^verbatim>\<open>_parse_mode\<close> over the slices \<^verbatim>\<open>mode[0:3]\<close>, \<^verbatim>\<open>mode[3:6]\<close>,
  \<^verbatim>\<open>mode[6:9]\<close> (a slice never raises), then \<^verbatim>\<open>int(result)\<close>.
\<close>

definition parse_mode_step :: "string \<Rightarrow> string \<Rightarrow> string" where
  "parse_mode_step result grp =
     (case SYMBOL_TO_OCTAL_PERMISSIONS grp of
        Some d \<Rightarrow> result @ d
      | None \<Rightarrow> result @ ''0'')"

definition parse_mode :: "string \<Rightarrow> error + int" where
  "parse_mode mode =
     (let result = foldl parse_mode_step []
            [take 3 mode, take 3 (drop 3 mode), take 3 (drop 6 mode)]
      in case py_int result of None \<Rightarrow> Inl ValueError | Some n \<Rightarrow> Inr n)"

section \<open>StatOutputParser: \<^verbatim>\<open>File.process\<close> and its subclasses\<close>

datatype path_type = Block | Character | Directory | Link | Socket | Fifo | File

definition FLAG_TO_TYPE :: "char \<rightharpoonup> path_type" where
  "FLAG_TO_TYPE = map_of
     [(CHR ''b'', Block), (CHR ''c'', Character), (CHR ''d'', Directory), (CHR ''l'', Link),
      (CHR ''s'', Socket), (CHR ''p'', Fifo), (CHR ''-'', File)]"

text \<open>
  The values of the \<^verbatim>\<open>data\<close> dictionary: a string, an integer, or the datetime of
  an epoch second.
\<close>

datatype val = StrV string | IntV int | DatetimeV int

text \<open>
  Modelled from the spec: \<^verbatim>\<open>try_int\<close> of \<^verbatim>\<open>pyinfra.api.util\<close> is not among the
  sources; the spec has it return the integer, or the raw string when the text is not
  numeric, and never fail.
\<close>

definition try_int :: "string \<Rightarrow> val" where
  "try_int v = (case py_int v of Some n \<Rightarrow> IntV n | None \<Rightarrow> StrV v)"

text \<open>
  \<^verbatim>\<open>datetime.utcfromtimestamp\<close>: a datetime holds the years 1 to 9999, that is the
  epoch seconds from \<open>-62135596800\<close> to \<open>253402300799\<close>; any other timestamp raises.
\<close>

definition timestamp_in_range :: "int \<Rightarrow> bool" where
  "timestamp_in_range n = (- 62135596800 \<le> n \<and> n \<le> 253402300799)"

definition utcfromtimestamp :: "int \<Rightarrow> error + val" where
  "utcfromtimestamp n = (if timestamp_in_range n then Inr (DatetimeV n) else Inl TimestampError)"

definition LINUX_STAT_COMMAND :: string where
  "LINUX_STAT_COMMAND =
     ''stat -c '' @ [CHR 0x27]
       @ ''user=%U group=%G mode=%A atime=%X mtime=%Y ctime=%Z size=%s %N'' @ [CHR 0x27]"

definition BSD_STAT_COMMAND :: string where
  "BSD_STAT_COMMAND =
     ''stat -f '' @ [CHR 0x27]
       @ ''user=%Su group=%Sg mode=%Sp atime=%a mtime=%m ctime=%c size=%z %N%SY'' @ [CHR 0x27]"

text \<open>
  \<^verbatim>\<open>File.command\<close>. \<^verbatim>\<open>escape_unix_path\<close> (of \<^verbatim>\<open>pyinfra.api.connectors.util\<close>) is
  not among the sources: every command takes it as the parameter \<open>escape\<close>.
\<close>

definition File_command :: "(string \<Rightarrow> string) \<Rightarrow> string \<Rightarrow> string" where
  "File_command escape path =
     (let p = escape path in
      ''stat '' @ p @ '' 1> /dev/null 2> /dev/null && ('' @ LINUX_STAT_COMMAND @ '' '' @ p
        @ '' 2> /dev/null || '' @ BSD_STAT_COMMAND @ '' '' @ p @ '') || true'')"

text \<open>
  The dictionary \<^verbatim>\<open>data\<close> keeps its keys in the order of their first assignment, so it
  is an association list written with \<^const>\<open>AList.update\<close>. The result of
  \<^verbatim>\<open>process\<close> is \<^verbatim>\<open>False\<close> (\<open>Absent\<close>) or the dictionary.
\<close>

type_synonym data = "(string \<times> val) list"

datatype stat_result = Absent | Found data

text \<open>
  One turn of the loop over \<^verbatim>\<open>stat_bits\<close>, on the pair of \<^verbatim>\<open>data\<close> and
  \<^verbatim>\<open>path_type\<close>. The unpacking \<^verbatim>\<open>key, value = bit.split('=')\<close> raises ValueError
  unless there are exactly two pieces, \<^verbatim>\<open>value[0]\<close> raises IndexError on the empty
  string and \<^verbatim>\<open>FLAG_TO_TYPE[...]\<close> raises KeyError on a flag that is not a key.
\<close>

fun process_bit :: "data \<times> path_type option \<Rightarrow> string \<Rightarrow> error + (data \<times> path_type option)" where
  "process_bit (data, path_type) stat_bit =
     (case py_split stat_bit ''='' of
        [key, value] \<Rightarrow>
          if key = ''mode'' then
            (case value of
               [] \<Rightarrow> Inl IndexError
             | flag # perms \<Rightarrow>
                 (case FLAG_TO_TYPE flag of
                    None \<Rightarrow> Inl KeyError
                  | Some t \<Rightarrow>
                      (case parse_mode perms of
                         Inl e \<Rightarrow> Inl e
                       | Inr m \<Rightarrow> Inr (AList.update key (IntV m) data, Some t))))
          else if key = ''size'' then
            Inr (AList.update key (try_int value) data, path_type)
          else if key \<in> set [''atime'', ''mtime'', ''ctime''] then
            (case try_int value of
               IntV n \<Rightarrow>
                 (case utcfromtimestamp n of
                    Inl e \<Rightarrow> Inl e
                  | Inr d \<Rightarrow> Inr (AList.update key d data, path_type))
             | v \<Rightarrow> Inr (AList.update key v data, path_type))
          else Inr (AList.update key (StrV value) data, path_type)
      | _ \<Rightarrow> Inl ValueError)"

fun process_bits :: "data \<times> path_type option \<Rightarrow> string list \<Rightarrow> error + (data \<times> path_type option)" where
  "process_bits st [] = Inr st"
| "process_bits st (stat_bit # stat_bits) =
     (case process_bit st stat_bit of
        Inl e \<Rightarrow> Inl e
      | Inr st' \<Rightarrow> process_bits st' stat_bits)"

text \<open>
  \<^verbatim>\<open>File.process\<close>, with the class attribute \<^verbatim>\<open>type\<close> as the first argument
  (the values of \<^verbatim>\<open>FLAG_TO_TYPE\<close> are written capitalised).
  \<^verbatim>\<open>output[0]\<close> raises IndexError on an empty output, and so does
  \<^verbatim>\<open>stat_bits[-1]\<close> on a line without a word.
\<close>

definition File_process :: "path_type \<Rightarrow> string list \<Rightarrow> error + stat_result" where
  "File_process fact_type output =
     (case output of
        [] \<Rightarrow> Inl IndexError
      | line # _ \<Rightarrow>
          (let stat_bits = split_ws 7 line in
           if stat_bits = [] then Inl IndexError
           else
             (let filename = last stat_bits in
              case process_bits ([], None) (butlast stat_bits) of
                Inl e \<Rightarrow> Inl e
              | Inr (data, path_type) \<Rightarrow>
                  if path_type \<noteq> Some fact_type then Inr Absent
                  else if path_type = Some Link then
                    (case py_split filename '' -> '' of
                       [filename', target] \<Rightarrow>
                         Inr (Found (AList.update ''link_target''
                                (StrV (py_strip target [CHR 0x27])) data))
                     | _ \<Rightarrow> Inl ValueError)
                  else Inr (Found data))))"



definition Socket_process :: "string list \<Rightarrow> error + stat_result" where
  "Socket_process = File_process Socket"

section \<open>The fragment of Python's \<^verbatim>\<open>re\<close> that the checksum patterns use\<close>

text \<open>
  A pattern is read as a sequence of items: an atom, alone or followed by \<^verbatim>\<open>+\<close> or
  \<^verbatim>\<open>{n}\<close>; the marks of one capturing group; \<^verbatim>\<open>^\<close> at the start and \<^verbatim>\<open>$\<close>. An atom
  is the class \<^verbatim>\<open>[a-zA-Z0-9]\<close>, \<^verbatim>\<open>\s\<close>, a backslash before a character that is no
  ASCII letter or digit (that character itself), \<^verbatim>\<open>.\<close> (any character but a newline) or
  a character without a special meaning. Every other pattern is outside the fragment, and
  the functions below return \<open>None\<close> for it: the theory says nothing about it.
\<close>

datatype cclass = Lit char | AnyChar | Space | AlNum

fun cmatch :: "cclass \<Rightarrow> char \<Rightarrow> bool" where
  "cmatch (Lit c) x = (x = c)"
| "cmatch AnyChar x = (x \<noteq> CHR 0x0A)"
| "cmatch Space x = is_space x"
| "cmatch AlNum x = is_alnum x"

datatype token = TAtom cclass | TPlus | TCount nat | TOpen | TClose | TBos | TEos

text \<open>The digits and the closing brace of \<^verbatim>\<open>{n}\<close>: the count and the length read.\<close>

definition lex_count :: "string \<Rightarrow> (nat \<times> nat) option" where
  "lex_count r =
     (let ds = takeWhile is_digit r; rest = dropWhile is_digit r in
      if ds \<noteq> [] \<and> rest \<noteq> [] \<and> hd rest = CHR ''}''
      then Some (nat (digits_to_int ds), length ds + 1) else None)"

text \<open>The token at the head of a pattern text and the number of characters it takes.\<close>

definition token_at :: "char \<Rightarrow> string \<Rightarrow> (token \<times> nat) option" where
  "token_at c r =
     (if c = CHR 0x5C then
        (case r of
           [] \<Rightarrow> None
         | e # _ \<Rightarrow>
             if e = CHR ''s'' then Some (TAtom Space, 2)
             else if is_alnum e then None
             else Some (TAtom (Lit e), 2))
      else if c = CHR ''['' then
        (if prefix ''a-zA-Z0-9]'' r then Some (TAtom AlNum, 11) else None)
      else if c = CHR ''.'' then Some (TAtom AnyChar, 1)
      else if c = CHR ''('' then
        (if r \<noteq> [] \<and> hd r = CHR ''?'' then None else Some (TOpen, 1))
      else if c = CHR '')'' then Some (TClose, 1)
      else if c = CHR ''^'' then Some (TBos, 1)
      else if c = CHR ''$'' then Some (TEos, 1)
      else if c = CHR ''+'' then Some (TPlus, 1)
      else if c = CHR ''{'' then
        (case lex_count r of None \<Rightarrow> None | Some (n, len) \<Rightarrow> Some (TCount n, len + 1))
      else if c \<in> set ''*?|'' then None
      else Some (TAtom (Lit c), 1))"

text \<open>The tokens of a pattern text; \<open>skip\<close> characters of the last token are still to pass.\<close>

fun lex :: "nat \<Rightarrow> string \<Rightarrow> token list option" where
  "lex skip [] = Some []"
| "lex (Suc skip) (c # r) = lex skip r"
| "lex 0 (c # r) =
     (case token_at c r of
        None \<Rightarrow> None
      | Some (tok, len) \<Rightarrow> map_option ((#) tok) (lex (len - 1) r))"

datatype piece = Once cclass | Many1 cclass | Exactly nat cclass | GOpen | GClose | Eos

definition quant_head :: "token list \<Rightarrow> bool" where
  "quant_head ts = (case ts of TPlus # _ \<Rightarrow> True | TCount _ # _ \<Rightarrow> True | _ \<Rightarrow> False)"

fun build :: "token list \<Rightarrow> piece list option" where
  "build [] = Some []"
| "build (TAtom a # TPlus # ts) =
     (if quant_head ts then None else map_option ((#) (Many1 a)) (build ts))"
| "build (TAtom a # TCount n # ts) =
     (if quant_head ts then None else map_option ((#) (Exactly n a)) (build ts))"
| "build (TAtom a # ts) = map_option ((#) (Once a)) (build ts)"
| "build (TOpen # ts) =
     (if quant_head ts then None else map_option ((#) GOpen) (build ts))"
| "build (TClose # ts) =
     (if quant_head ts then None else map_option ((#) GClose) (build ts))"
| "build (TEos # ts) =
     (if quant_head ts then None else map_option ((#) Eos) (build ts))"
| "build (TPlus # ts) = None"
| "build (TCount n # ts) = None"
| "build (TBos # ts) = None"

text \<open>
  \<^verbatim>\<open>re.compile\<close> on the fragment: \<^verbatim>\<open>^\<close> only in front, and exactly one group, opened
  before it is closed.
\<close>

definition re_compile :: "string \<Rightarrow> piece list option" where
  "re_compile pattern =
     (case lex 0 pattern of
        None \<Rightarrow> None
      | Some toks \<Rightarrow>
          (case build (case toks of TBos # ts \<Rightarrow> ts | _ \<Rightarrow> toks) of
             None \<Rightarrow> None
           | Some ps \<Rightarrow>
               if filter (\<lambda>p. p = GOpen \<or> p = GClose) ps = [GOpen, GClose]
               then Some ps else None))"

text \<open>
  The backtracking matcher from the start of the text, as \<^verbatim>\<open>re.match\<close> runs it: a
  repetition takes as much as it can first. \<open>ins\<close> says that the group is open and
  \<open>acc\<close> is the text of the group so far; the result is \<^verbatim>\<open>group(1)\<close> of the first
  match found, \<open>None\<close> when there is none. \<^verbatim>\<open>$\<close> holds at the end of the text and
  before a newline that ends it.
\<close>

fun rmatch :: "piece list \<Rightarrow> bool \<Rightarrow> string \<Rightarrow> string \<Rightarrow> string option" where
  "rmatch [] ins acc s = Some acc"
| "rmatch (GOpen # ps) ins acc s = rmatch ps True [] s"
| "rmatch (GClose # ps) ins acc s = rmatch ps False acc s"
| "rmatch (Eos # ps) ins acc s =
     (if s = [] \<or> s = [CHR 0x0A] then rmatch ps ins acc s else None)"
| "rmatch (Once c # ps) ins acc s =
     (case s of
        [] \<Rightarrow> None
      | x # s' \<Rightarrow>
          if cmatch c x then rmatch ps ins (if ins then acc @ [x] else acc) s' else None)"
| "rmatch (Exactly n c # ps) ins acc s =
     (if n = 0 then rmatch ps ins acc s
      else
        (case s of
           [] \<Rightarrow> None
         | x # s' \<Rightarrow>
             if cmatch c x
             then rmatch (Exactly (n - 1) c # ps) ins (if ins then acc @ [x] else acc) s'
             else None))"
| "rmatch (Many1 c # ps) ins acc s =
     (case s of
        [] \<Rightarrow> None
      | x # s' \<Rightarrow>
          if cmatch c x
          then
            (case rmatch (Many1 c # ps) ins (if ins then acc @ [x] else acc) s' of
               Some g \<Rightarrow> Some g
             | None \<Rightarrow> rmatch ps ins (if ins then acc @ [x] else acc) s')
          else None)"

text \<open>
  \<^verbatim>\<open>m = re.match(pattern, s)\<close> followed by \<^verbatim>\<open>m.group(1)\<close> when \<^verbatim>\<open>m\<close> is a match:
  \<open>None\<close> outside the fragment, \<open>Some None\<close> when the pattern does not match.
\<close>

definition re_match_group1 :: "string \<Rightarrow> string \<Rightarrow> string option option" where
  "re_match_group1 pattern s = map_option (\<lambda>ps. rmatch ps False [] s) (re_compile pattern)"

text \<open>\<^verbatim>\<open>template % arg\<close> for a template whose only conversion is \<^verbatim>\<open>%s\<close>.\<close>

fun percent_s :: "string \<Rightarrow> string \<Rightarrow> string" where
  "percent_s [] arg = []"
| "percent_s [c] arg = [c]"
| "percent_s (c # d # r) arg =
     (if c = CHR ''%'' \<and> d = CHR ''s'' then arg @ percent_s r arg
      else c # percent_s (d # r) arg)"


section \<open>ChecksumFactFamily: \<^verbatim>\<open>Sha1File\<close>, \<^verbatim>\<open>Sha256File\<close>, \<^verbatim>\<open>Md5File\<close>\<close>

text \<open>
  A fact instance holds the attribute \<^verbatim>\<open>self.name\<close>, which \<^verbatim>\<open>command\<close> sets and
  \<^verbatim>\<open>process\<close> reads; \<open>None\<close> is the attribute not set yet. \<^verbatim>\<open>shlex_quote\<close> is a
  library function: \<^verbatim>\<open>FindInFile.command\<close> takes it as the parameter \<open>quote\<close>.
\<close>

record fact =
  name :: "string option"

definition Sha1File_regexes :: "string list" where
  "Sha1File_regexes =
     [''^([a-zA-Z0-9]{40})'' @ [CHR 0x5C] @ ''s+%s$'',
      ''^SHA1'' @ [CHR 0x5C] @ ''s+'' @ [CHR 0x5C] @ ''(%s'' @ [CHR 0x5C] @ '')''
        @ [CHR 0x5C] @ ''s+='' @ [CHR 0x5C] @ ''s+([a-zA-Z0-9]{40})$'']"

definition Sha256File_regexes :: "string list" where
  "Sha256File_regexes =
     [''^([a-zA-Z0-9]{64})'' @ [CHR 0x5C] @ ''s+%s$'',
      ''^SHA256'' @ [CHR 0x5C] @ ''s+'' @ [CHR 0x5C] @ ''(%s'' @ [CHR 0x5C] @ '')''
        @ [CHR 0x5C] @ ''s+='' @ [CHR 0x5C] @ ''s+([a-zA-Z0-9]{64})$'']"

definition Md5File_regexes :: "string list" where
  "Md5File_regexes =
     [''^([a-zA-Z0-9]{32})'' @ [CHR 0x5C] @ ''s+%s$'',
      ''^SHA256'' @ [CHR 0x5C] @ ''s+'' @ [CHR 0x5C] @ ''(%s'' @ [CHR 0x5C] @ '')''
        @ [CHR 0x5C] @ ''s+='' @ [CHR 0x5C] @ ''s+([a-zA-Z0-9]{32})$'']"

definition Sha1File_command :: "(string \<Rightarrow> string) \<Rightarrow> fact \<Rightarrow> string \<Rightarrow> string \<times> fact" where
  "Sha1File_command escape self path =
     (let n = escape path in
      (''sha1sum '' @ n @ '' 2> /dev/null || shasum '' @ n @ '' 2> /dev/null || sha1 '' @ n,
       self\<lparr>name := Some n\<rparr>))"

definition Sha256File_command :: "(string \<Rightarrow> string) \<Rightarrow> fact \<Rightarrow> string \<Rightarrow> string \<times> fact" where
  "Sha256File_command escape self path =
     (let n = escape path in
      (''sha256sum '' @ n @ '' 2> /dev/null || shasum -a 256 '' @ n
         @ '' 2> /dev/null || sha256 '' @ n,
       self\<lparr>name := Some n\<rparr>))"

definition Md5File_command :: "(string \<Rightarrow> string) \<Rightarrow> fact \<Rightarrow> string \<Rightarrow> string \<times> fact" where
  "Md5File_command escape self path =
     (let n = escape path in
      (''md5sum '' @ n @ '' 2> /dev/null || md5 '' @ n, self\<lparr>name := Some n\<rparr>))"

text \<open>
  The loop of \<^verbatim>\<open>process\<close> over \<^verbatim>\<open>_regexes\<close>: the first pattern that matches gives the
  digest, and a loop that ends returns Python's \<^verbatim>\<open>None\<close> (\<open>Some None\<close> here; the outer
  \<open>None\<close> is a pattern outside the fragment).
\<close>

fun match_regexes :: "string list \<Rightarrow> string \<Rightarrow> string \<Rightarrow> string option option" where
  "match_regexes [] n line = Some None"
| "match_regexes (regex # regexes) n line =
     (case re_match_group1 (percent_s regex n) line of
        None \<Rightarrow> None
      | Some (Some digest) \<Rightarrow> Some (Some digest)
      | Some None \<Rightarrow> match_regexes regexes n line)"

text \<open>
  The body the three \<^verbatim>\<open>process\<close> methods share: \<^verbatim>\<open>self.name\<close> raises AttributeError
  when no command was built, \<^verbatim>\<open>output[0]\<close> raises IndexError on an empty output.
\<close>

definition checksum_process ::
  "string list \<Rightarrow> fact \<Rightarrow> string list \<Rightarrow> (error + string option) option" where
  "checksum_process regexes self output =
     (case name self of
        None \<Rightarrow> Some (Inl AttributeError)
      | Some n \<Rightarrow>
          (case output of
             [] \<Rightarrow> Some (Inl IndexError)
           | line # _ \<Rightarrow> map_option Inr (match_regexes regexes n line)))"

definition Sha1File_process :: "fact \<Rightarrow> string list \<Rightarrow> (error + string option) option" where
  "Sha1File_process = checksum_process Sha1File_regexes"

definition Sha256File_process :: "fact \<Rightarrow> string list \<Rightarrow> (error + string option) option" where
  "Sha256File_process = checksum_process Sha256File_regexes"

definition Md5File_process :: "fact \<Rightarrow> string list \<Rightarrow> (error + string option) option" where
  "Md5File_process = checksum_process Md5File_regexes"

section \<open>ContentSearchFact: \<^verbatim>\<open>FindInFile\<close>\<close>

definition FindInFile_command ::
  "(string \<Rightarrow> string) \<Rightarrow> (string \<Rightarrow> string) \<Rightarrow> fact \<Rightarrow> string \<Rightarrow> string \<Rightarrow> string \<times> fact" where
  "FindInFile_command escape quote self path pattern =
     (let n = escape path; p = quote pattern in
      (py_strip_ws (''grep -e '' @ p @ '' '' @ n @ '' 2> /dev/null || (find '' @ n
         @ '' -type f > /dev/null && echo '' @ [CHR 0x22] @ ''__pyinfra_exists_'' @ n
         @ [CHR 0x22] @ '')''),
       self\<lparr>name := Some n\<rparr>))"

text \<open>
  \<^verbatim>\<open>FindInFile.process\<close> returns a list: the empty list, or \<^verbatim>\<open>output\<close> itself. The
  result type has Python's \<^verbatim>\<open>None\<close> as well (\<open>None\<close>), which this method never
  returns. On an empty output the test stops at \<^verbatim>\<open>output\<close> and \<^verbatim>\<open>self.name\<close> is not
  read.
\<close>

definition FindInFile_process :: "fact \<Rightarrow> string list \<Rightarrow> error + string list option" where
  "FindInFile_process self output =
     (case output of
        [] \<Rightarrow> Inr (Some output)
      | line # _ \<Rightarrow>
          (case name self of
             None \<Rightarrow> Inl AttributeError
           | Some n \<Rightarrow>
               if line = ''__pyinfra_exists_'' @ n then Inr (Some []) else Inr (Some output)))"

text \<open>\<^verbatim>\<open>FindFiles\<close>, \<^verbatim>\<open>FindLinks\<close>, \<^verbatim>\<open>FindDirectories\<close>: static methods, no instance.\<close>

definition FindFiles_command :: "(string \<Rightarrow> string) \<Rightarrow> string \<Rightarrow> string" where
  "FindFiles_command escape path = ''find '' @ escape path @ '' -type f''"

definition FindFiles_process :: "string list \<Rightarrow> string list" where
  "FindFiles_process output = output"

definition FindLinks_command :: "(string \<Rightarrow> string) \<Rightarrow> string \<Rightarrow> string" where
  "FindLinks_command escape path = ''find '' @ escape path @ '' -type l''"

definition FindDirectories_command :: "(string \<Rightarrow> string) \<Rightarrow> string \<Rightarrow> string" where
  "FindDirectories_command escape path = ''find '' @ escape path @ '' -type d''"

section \<open>The spec's readings, to compare the code with\<close>

text \<open>
  The spec's reading of the codec, to compare \<^verbatim>\<open>_parse_mode\<close> with: the eight canonical
  groups, and a group's digit as the sum read=4, write=2, execute=1 (0 for any other group).
\<close>

definition canonical_groups :: "string list" where
  "canonical_groups = [''rwx'', ''rw-'', ''r-x'', ''r--'', ''-wx'', ''-w-'', ''--x'', ''---'']"

definition spec_group_digit :: "string \<Rightarrow> int" where
  "spec_group_digit g =
     (if g \<in> set canonical_groups
      then (if g ! 0 = CHR ''r'' then 4 else 0) + (if g ! 1 = CHR ''w'' then 2 else 0)
           + (if g ! 2 = CHR ''x'' then 1 else 0)
      else 0)"

text \<open>
  The line both stat formats print, \<^verbatim>\<open>user=%U group=%G mode=%A atime=%X mtime=%Y ctime=%Z
  size=%s %N\<close>, for given field texts, and what the parser is expected to make of its
  fields: the mode digits of the permission text, a timestamp as a datetime when its text
  is an integer and as the raw text otherwise.
\<close>

definition stat_line ::
  "string \<Rightarrow> string \<Rightarrow> string \<Rightarrow> string \<Rightarrow> string \<Rightarrow> string \<Rightarrow> string \<Rightarrow> string \<Rightarrow> string" where
  "stat_line u g m a mt c s n =
     ''user='' @ u @ '' group='' @ g @ '' mode='' @ m @ '' atime='' @ a
       @ '' mtime='' @ mt @ '' ctime='' @ c @ '' size='' @ s @ '' '' @ n"

text \<open>A field text without whitespace and without \<^verbatim>\<open>=\<close>.\<close>

definition plain :: "string \<Rightarrow> bool" where
  "plain v = list_all (\<lambda>c. \<not> is_space c \<and> c \<noteq> CHR ''='') v"

definition timestamp_ok :: "string \<Rightarrow> bool" where
  "timestamp_ok v = (case py_int v of None \<Rightarrow> True | Some n \<Rightarrow> timestamp_in_range n)"

definition timestamp_val :: "string \<Rightarrow> val" where
  "timestamp_val v = (case py_int v of None \<Rightarrow> StrV v | Some n \<Rightarrow> DatetimeV n)"

definition spec_mode :: "string \<Rightarrow> int" where
  "spec_mode perms =
     100 * spec_group_digit (take 3 perms) + 10 * spec_group_digit (take 3 (drop 3 perms))
       + spec_group_digit (take 3 (drop 6 perms))"

definition stat_data ::
  "string \<Rightarrow> string \<Rightarrow> string \<Rightarrow> string \<Rightarrow> string \<Rightarrow> string \<Rightarrow> string \<Rightarrow> data" where
  "stat_data u g perms a mt c s =
     [(''user'', StrV u), (''group'', StrV g), (''mode'', IntV (spec_mode perms)),
      (''atime'', timestamp_val a), (''mtime'', timestamp_val mt),
      (''ctime'', timestamp_val c), (''size'', try_int s)]"


text \<open>
  The invariant of the loop over \<^verbatim>\<open>stat_bits\<close>: once \<^verbatim>\<open>path_type\<close> is set,
  \<^verbatim>\<open>data['mode']\<close> is an integer of three decimal digits from 0 to 7.
\<close>

definition three_digits :: "int \<Rightarrow> bool" where
  "three_digits m = (\<exists>a\<in>{0..7}. \<exists>b\<in>{0..7}. \<exists>c\<in>{0..7}. m = 100 * a + 10 * b + c)"

definition mode_inv :: "data \<times> path_type option \<Rightarrow> bool" where
  "mode_inv st =
     (case snd st of
        None \<Rightarrow> True
      | Some t \<Rightarrow>
          (case map_of (fst st) ''mode'' of
             Some (IntV m) \<Rightarrow> three_digits m
           | _ \<Rightarrow> False))"

section \<open>Theorems\<close>

subsection \<open>PermissionCodec\<close>

lemma is_digit_plain:
  "is_digit c \<Longrightarrow> \<not> is_space c \<and> c \<noteq> CHR ''-'' \<and> c \<noteq> CHR ''+'' \<and> c \<noteq> CHR ''_''"
  by (auto simp: is_digit_def is_space_def)

lemma py_int_three_digits:
  assumes "is_digit a" "is_digit b" "is_digit c"
  shows "py_int [a, b, c] = Some (100 * digit_val a + 10 * digit_val b + digit_val c)"
  using assms is_digit_plain[of a] is_digit_plain[of b] is_digit_plain[of c]
  by (simp add: py_int_def py_strip_ws_def digits_to_int_def)

lemma parse_mode_step_digit:
  "\<exists>c. parse_mode_step r g = r @ [c] \<and> is_digit c \<and> digit_val c = spec_group_digit g"
proof (cases "g \<in> set canonical_groups")
  case True
  have "\<forall>g\<in>set canonical_groups.
          \<exists>c. parse_mode_step r g = r @ [c] \<and> is_digit c \<and> digit_val c = spec_group_digit g"
    by (simp add: canonical_groups_def parse_mode_step_def
        SYMBOL_TO_OCTAL_PERMISSIONS_def spec_group_digit_def is_digit_def digit_val_def)
  with True show ?thesis by blast
next
  case False
  then have "SYMBOL_TO_OCTAL_PERMISSIONS g = None"
    by (simp add: canonical_groups_def SYMBOL_TO_OCTAL_PERMISSIONS_def)
  with False show ?thesis
    by (simp add: parse_mode_step_def spec_group_digit_def is_digit_def digit_val_def)
qed

lemma parse_mode_slices: "parse_mode mode = Inr (spec_mode mode)"
proof -
  let ?g1 = "take 3 mode" and ?g2 = "take 3 (drop 3 mode)" and ?g3 = "take 3 (drop 6 mode)"
  obtain a where a: "parse_mode_step [] ?g1 = [a]" "is_digit a" "digit_val a = spec_group_digit ?g1"
    using parse_mode_step_digit[of "[]" ?g1] by auto
  obtain b where b: "parse_mode_step [a] ?g2 = [a, b]" "is_digit b" "digit_val b = spec_group_digit ?g2"
    using parse_mode_step_digit[of "[a]" ?g2] by auto
  obtain c where c: "parse_mode_step [a, b] ?g3 = [a, b, c]" "is_digit c" "digit_val c = spec_group_digit ?g3"
    using parse_mode_step_digit[of "[a, b]" ?g3] by auto
  have "foldl parse_mode_step [] [?g1, ?g2, ?g3] = [a, b, c]"
    using a(1) b(1) c(1) by simp
  then show ?thesis
    using py_int_three_digits[OF a(2) b(2) c(2)] a(3) b(3) c(3)
    by (simp add: parse_mode_def spec_mode_def)
qed

text \<open>
  C1: for three 3-character groups, \<^verbatim>\<open>_parse_mode\<close> returns, without raising, the integer
  whose decimal digits are the groups' digits: read=4 + write=2 + execute=1 for one of the
  eight canonical groups, 0 for any other group.
\<close>

theorem parse_mode_encodes:
  assumes "length g1 = 3" "length g2 = 3" "length g3 = 3"
  shows "parse_mode (g1 @ g2 @ g3)
           = Inr (100 * spec_group_digit g1 + 10 * spec_group_digit g2 + spec_group_digit g3)"
  using assms by (simp add: parse_mode_slices spec_mode_def)

theorem parse_mode_encodes_witness:
  "length ''rwx'' = 3 \<and> length ''r-x'' = 3 \<and> length ''r--'' = 3 \<and> length ''rws'' = 3
   \<and> parse_mode ''rwxr-xr--'' = Inr 754 \<and> parse_mode ''rwsr-xr--'' = Inr 54"
  using parse_mode_encodes[of "''rwx''" "''r-x''" "''r--''"]
    parse_mode_encodes[of "''rws''" "''r-x''" "''r--''"]
  by (simp add: spec_group_digit_def canonical_groups_def)

subsection \<open>StatOutputParser on a line of the stat format\<close>

lemma split_ws_lead_space: "split_ws k (CHR '' '' # rest) = split_ws k rest"
  by (cases k) (simp_all add: is_space_def)

lemma split_ws_word:
  assumes "w \<noteq> []" "\<forall>c\<in>set w. \<not> is_space c"
  shows "split_ws (Suc k) (w @ CHR '' '' # rest) = w # split_ws k rest"
proof -
  have sp: "is_space (CHR '' '')" by (simp add: is_space_def)
  have d: "dropWhile is_space (w @ CHR '' '' # rest) = w @ CHR '' '' # rest"
    using assms by (cases w) simp_all
  have t: "takeWhile (\<lambda>c. \<not> is_space c) (w @ CHR '' '' # rest) = w"
    using assms(2) sp by (simp add: takeWhile_append2)
  have r: "dropWhile (\<lambda>c. \<not> is_space c) (w @ CHR '' '' # rest) = CHR '' '' # rest"
    using assms(2) sp by (simp add: dropWhile_append2)
  show ?thesis
    using assms(1) by (simp add: d t r split_ws_lead_space)
qed

lemma split_ws_last:
  assumes "n \<noteq> []" "\<not> is_space (hd n)"
  shows "split_ws 0 n = [n]"
  using assms by (cases n) simp_all

lemma stat_line_bits:
  assumes "plain u" "plain g" "plain m" "plain a" "plain mt" "plain c" "plain s"
    and "n \<noteq> []" "\<not> is_space (hd n)"
  shows "split_ws 7 (stat_line u g m a mt c s n)
     = [''user='' @ u, ''group='' @ g, ''mode='' @ m, ''atime='' @ a, ''mtime='' @ mt,
        ''ctime='' @ c, ''size='' @ s, n]"
proof -
  have w: "\<forall>c\<in>set (''user='' @ u). \<not> is_space c" "\<forall>c\<in>set (''group='' @ g). \<not> is_space c"
    "\<forall>c\<in>set (''mode='' @ m). \<not> is_space c" "\<forall>c\<in>set (''atime='' @ a). \<not> is_space c"
    "\<forall>c\<in>set (''mtime='' @ mt). \<not> is_space c" "\<forall>c\<in>set (''ctime='' @ c). \<not> is_space c"
    "\<forall>c\<in>set (''size='' @ s). \<not> is_space c"
    using assms(1-7) by (simp_all add: plain_def list_all_iff is_space_def)
  have e: "stat_line u g m a mt c s n
     = (''user='' @ u) @ CHR '' '' # (''group='' @ g) @ CHR '' '' # (''mode='' @ m) @ CHR '' '' #
       (''atime='' @ a) @ CHR '' '' # (''mtime='' @ mt) @ CHR '' '' # (''ctime='' @ c) @ CHR '' '' #
       (''size='' @ s) @ CHR '' '' # n"
    by (simp add: stat_line_def)
  have seven: "(7::nat) = Suc (Suc (Suc (Suc (Suc (Suc (Suc 0))))))" by simp
  show ?thesis
    unfolding e seven
    using w assms(8,9) by (simp only: split_ws_word split_ws_last append_is_Nil_conv list.simps simp_thms)
qed

lemma split_sep_none: "CHR ''='' \<notin> set v \<Longrightarrow> split_sep ''='' acc v = [acc @ v]"
  by (induction v arbitrary: acc) simp_all

lemma split_sep_kv:
  "CHR ''='' \<notin> set k \<Longrightarrow> CHR ''='' \<notin> set v
     \<Longrightarrow> split_sep ''='' acc (k @ CHR ''='' # v) = [acc @ k, v]"
  by (induction k arbitrary: acc) (simp_all add: split_sep_none)

lemma plain_no_eq: "plain v \<Longrightarrow> CHR ''='' \<notin> set v"
  by (auto simp: plain_def list_all_iff)

lemma py_split_kv:
  "CHR ''='' \<notin> set k \<Longrightarrow> plain v \<Longrightarrow> py_split (k @ CHR ''='' # v) ''='' = [k, v]"
  using split_sep_kv[of k v "[]"] by (simp add: py_split_def plain_no_eq)

lemma process_bit_other:
  assumes "CHR ''='' \<notin> set k" "plain v"
    and "k \<notin> set [''mode'', ''size'', ''atime'', ''mtime'', ''ctime'']"
  shows "process_bit (d, pt) (k @ CHR ''='' # v) = Inr (AList.update k (StrV v) d, pt)"
  using assms(3) by (simp add: py_split_kv[OF assms(1,2)])

lemma process_bit_mode:
  assumes "plain (flag # perms)" "FLAG_TO_TYPE flag = Some t"
  shows "process_bit (d, pt) (''mode'' @ CHR ''='' # flag # perms)
           = Inr (AList.update ''mode'' (IntV (spec_mode perms)) d, Some t)"
proof -
  have "py_split (''mode'' @ CHR ''='' # flag # perms) ''='' = [''mode'', flag # perms]"
    using assms(1) by (intro py_split_kv) simp_all
  then show ?thesis
    using assms(2) by (simp add: parse_mode_slices)
qed

lemma process_bit_size:
  assumes "plain s"
  shows "process_bit (d, pt) (''size'' @ CHR ''='' # s)
           = Inr (AList.update ''size'' (try_int s) d, pt)"
proof -
  have "py_split (''size'' @ CHR ''='' # s) ''='' = [''size'', s]"
    using assms by (intro py_split_kv) simp_all
  then show ?thesis by simp
qed

lemma process_bit_time:
  assumes "plain v" "timestamp_ok v" "k \<in> set [''atime'', ''mtime'', ''ctime'']"
  shows "process_bit (d, pt) (k @ CHR ''='' # v)
           = Inr (AList.update k (timestamp_val v) d, pt)"
proof -
  have "CHR ''='' \<notin> set k" using assms(3) by auto
  then have "py_split (k @ CHR ''='' # v) ''='' = [k, v]"
    using assms(1) by (rule py_split_kv)
  moreover have "k \<noteq> ''mode''" "k \<noteq> ''size''" using assms(3) by auto
  ultimately show ?thesis
    using assms(2,3)
    by (auto simp: try_int_def timestamp_ok_def timestamp_val_def utcfromtimestamp_def
        split: option.splits)
qed

lemma process_bits_stat_line:
  assumes "plain u" "plain g" "plain (flag # perms)" "plain a" "plain mt" "plain c" "plain s"
    and "FLAG_TO_TYPE flag = Some t" "timestamp_ok a" "timestamp_ok mt" "timestamp_ok c"
  shows "process_bits ([], None)
           [''user='' @ u, ''group='' @ g, ''mode='' @ flag # perms, ''atime='' @ a,
            ''mtime='' @ mt, ''ctime='' @ c, ''size='' @ s]
         = Inr (stat_data u g perms a mt c s, Some t)"
proof -
  have b1: "process_bit ([], None) (''user='' @ u) = Inr ([(''user'', StrV u)], None)"
    using process_bit_other[of "''user''" u "[]" None] assms(1) by simp
  have b2: "process_bit ([(''user'', StrV u)], None) (''group='' @ g)
      = Inr ([(''user'', StrV u), (''group'', StrV g)], None)"
    using process_bit_other[of "''group''" g "[(''user'', StrV u)]" None] assms(2) by simp
  have b3: "process_bit ([(''user'', StrV u), (''group'', StrV g)], None) (''mode='' @ flag # perms)
      = Inr ([(''user'', StrV u), (''group'', StrV g), (''mode'', IntV (spec_mode perms))], Some t)"
    using process_bit_mode[OF assms(3,8), of "[(''user'', StrV u), (''group'', StrV g)]" None]
    by simp
  let ?d3 = "[(''user'', StrV u), (''group'', StrV g), (''mode'', IntV (spec_mode perms))]"
  let ?d4 = "[(''user'', StrV u), (''group'', StrV g), (''mode'', IntV (spec_mode perms)),
      (''atime'', timestamp_val a)]"
  let ?d5 = "[(''user'', StrV u), (''group'', StrV g), (''mode'', IntV (spec_mode perms)),
      (''atime'', timestamp_val a), (''mtime'', timestamp_val mt)]"
  let ?d6 = "[(''user'', StrV u), (''group'', StrV g), (''mode'', IntV (spec_mode perms)),
      (''atime'', timestamp_val a), (''mtime'', timestamp_val mt), (''ctime'', timestamp_val c)]"
  have b4: "process_bit (?d3, Some t) (''atime='' @ a) = Inr (?d4, Some t)"
    using process_bit_time[OF assms(4,9), of "''atime''" ?d3 "Some t"] by simp
  have b5: "process_bit (?d4, Some t) (''mtime='' @ mt) = Inr (?d5, Some t)"
    using process_bit_time[OF assms(5,10), of "''mtime''" ?d4 "Some t"] by simp
  have b6: "process_bit (?d5, Some t) (''ctime='' @ c) = Inr (?d6, Some t)"
    using process_bit_time[OF assms(6,11), of "''ctime''" ?d5 "Some t"] by simp
  have b7: "process_bit (?d6, Some t) (''size='' @ s)
      = Inr (stat_data u g perms a mt c s, Some t)"
    using process_bit_size[OF assms(7), of ?d6 "Some t"] by (simp add: stat_data_def)
  show ?thesis
    by (simp only: process_bits.simps b1 b2 b3 b4 b5 b6 b7 sum.case)
qed

lemma File_process_stat_line:
  assumes "plain u" "plain g" "plain (flag # perms)" "plain a" "plain mt" "plain c" "plain s"
    and "n \<noteq> []" "\<not> is_space (hd n)"
    and "FLAG_TO_TYPE flag = Some t" "timestamp_ok a" "timestamp_ok mt" "timestamp_ok c"
  shows "File_process fact_type [stat_line u g (flag # perms) a mt c s n] =
     (if t \<noteq> fact_type then Inr Absent
      else if t = Link then
        (case py_split n '' -> '' of
           [f, target] \<Rightarrow>
             Inr (Found (stat_data u g perms a mt c s
                    @ [(''link_target'', StrV (py_strip target [CHR 0x27]))]))
         | _ \<Rightarrow> Inl ValueError)
      else Inr (Found (stat_data u g perms a mt c s)))"
proof -
  let ?bits = "[''user='' @ u, ''group='' @ g, ''mode='' @ flag # perms, ''atime='' @ a,
            ''mtime='' @ mt, ''ctime='' @ c, ''size='' @ s]"
  have sp: "split_ws 7 (stat_line u g (flag # perms) a mt c s n) = ?bits @ [n]"
    using stat_line_bits[OF assms(1-9)] by simp
  have pb: "process_bits ([], None) ?bits = Inr (stat_data u g perms a mt c s, Some t)"
    using process_bits_stat_line[OF assms(1-7,10-13)] .
  have up: "AList.update ''link_target'' v (stat_data u g perms a mt c s)
      = stat_data u g perms a mt c s @ [(''link_target'', v)]" for v
    by (simp add: stat_data_def)
  show ?thesis
    unfolding File_process_def
    by (simp only: list.case sp Let_def butlast_snoc last_snoc pb up)
       (simp add: up split: list.splits)
qed

subsection \<open>The mode field\<close>

lemma spec_group_digit_range: "spec_group_digit g \<in> {0..7}"
  by (simp add: spec_group_digit_def)

lemma spec_mode_digits: "three_digits (spec_mode perms)"
  unfolding spec_mode_def three_digits_def using spec_group_digit_range by blast

lemma process_bit_mode_inv:
  assumes "process_bit st b = Inr st'" "mode_inv st"
  shows "mode_inv st'"
proof -
  obtain d pt where st: "st = (d, pt)" by (cases st)
  from assms(1) obtain k v where kv: "py_split b ''='' = [k, v]"
    unfolding st by (auto split: list.splits)
  show ?thesis
  proof (cases "k = ''mode''")
    case True
    have "process_bit (d, pt) b =
       (case v of [] \<Rightarrow> Inl IndexError
        | flag # perms \<Rightarrow>
           (case FLAG_TO_TYPE flag of None \<Rightarrow> Inl KeyError
            | Some t \<Rightarrow> Inr (AList.update ''mode'' (IntV (spec_mode perms)) d, Some t)))"
      by (simp add: kv True parse_mode_slices split: list.splits option.splits)
    with assms(1) obtain perms t where
      "st' = (AList.update ''mode'' (IntV (spec_mode perms)) d, Some t)"
      unfolding st by (auto split: list.splits option.splits)
    then show ?thesis
      using spec_mode_digits[of perms] by (simp add: mode_inv_def update_conv')
  next
    case False
    then have ne: "''mode'' \<noteq> k" by blast
    have "process_bit (d, pt) b =
       (if k = ''size'' then Inr (AList.update k (try_int v) d, pt)
        else if k \<in> set [''atime'', ''mtime'', ''ctime''] then
          (case try_int v of
             IntV n \<Rightarrow> (case utcfromtimestamp n of Inl e \<Rightarrow> Inl e
                        | Inr x \<Rightarrow> Inr (AList.update k x d, pt))
           | x \<Rightarrow> Inr (AList.update k x d, pt))
        else Inr (AList.update k (StrV v) d, pt))"
      using False by (simp add: kv)
    with assms(1) obtain x where "st' = (AList.update k x d, pt)"
      unfolding st by (fastforce split: if_splits val.splits sum.splits)
    moreover have "map_of (AList.update k x d) ''mode'' = map_of d ''mode''"
      using ne by (simp add: update_conv')
    ultimately show ?thesis
      using assms(2) by (simp add: mode_inv_def st split: option.splits)
  qed
qed

lemma process_bits_mode_inv:
  "process_bits st bs = Inr st' \<Longrightarrow> mode_inv st \<Longrightarrow> mode_inv st'"
proof (induction bs arbitrary: st)
  case Nil
  then show ?case by simp
next
  case (Cons b bs)
  then show ?case
    by (auto split: sum.splits dest: process_bit_mode_inv)
qed

text \<open>
  C2 (as amended): whenever \<^verbatim>\<open>File.process\<close> returns a record, its \<^verbatim>\<open>mode\<close> field is
  an integer from 0 to 777 whose three decimal digits are each from 0 to 7 (the digits are
  read in base ten, so 511 is not a bound).
\<close>

theorem mode_three_digits:
  assumes "File_process fact_type output = Inr (Found data)"
  shows "\<exists>m. map_of data ''mode'' = Some (IntV m) \<and> 0 \<le> m \<and> m \<le> 777 \<and>
           (\<exists>a\<in>{0..7}. \<exists>b\<in>{0..7}. \<exists>c\<in>{0..7}. m = 100 * a + 10 * b + c)"
proof -
  from assms obtain line rest where out: "output = line # rest"
    by (cases "output") (simp_all add: File_process_def)
  let ?bits = "split_ws 7 line"
  from assms out have ne: "?bits \<noteq> []"
    by (auto simp: File_process_def Let_def split: if_splits)
  from assms out ne obtain d pt where pb: "process_bits ([], None) (butlast ?bits) = Inr (d, pt)"
    by (auto simp: File_process_def Let_def split: sum.splits)
  from assms out ne pb have pt: "pt = Some fact_type"
    by (auto simp: File_process_def Let_def split: if_splits)
  have "mode_inv ([], None)" by (simp add: mode_inv_def)
  with pb have "mode_inv (d, pt)" by (rule process_bits_mode_inv)
  with pt obtain m where m: "map_of d ''mode'' = Some (IntV m)"
    "\<exists>a\<in>{0..7}. \<exists>b\<in>{0..7}. \<exists>c\<in>{0..7}. m = 100 * a + 10 * b + c"
    by (auto simp: mode_inv_def three_digits_def split: option.splits val.splits)
  from assms out ne pb pt have "data = d \<or> (\<exists>x. data = AList.update ''link_target'' x d)"
    by (auto simp: File_process_def Let_def split: if_splits list.splits)
  then have "map_of data ''mode'' = Some (IntV m)"
    using m(1) by (auto simp: update_conv')
  moreover from m(2) have "0 \<le> m \<and> m \<le> 777" by auto
  ultimately show ?thesis using m(2) by blast
qed

theorem mode_three_digits_witness:
  "File_process File [''user=root group=wheel mode=-rw-r--r-- atime=1 mtime=2 ctime=3 size=4 /f'']
     = Inr (Found [(''user'', StrV ''root''), (''group'', StrV ''wheel''), (''mode'', IntV 644),
          (''atime'', DatetimeV 1), (''mtime'', DatetimeV 2), (''ctime'', DatetimeV 3),
          (''size'', IntV 4)])
   \<and> (\<exists>m. map_of [(''user'', StrV ''root''), (''group'', StrV ''wheel''), (''mode'', IntV 644),
          (''atime'', DatetimeV 1), (''mtime'', DatetimeV 2), (''ctime'', DatetimeV 3),
          (''size'', IntV 4)] ''mode'' = Some (IntV m) \<and> 0 \<le> m \<and> m \<le> 777 \<and>
           (\<exists>a\<in>{0..7}. \<exists>b\<in>{0..7}. \<exists>c\<in>{0..7}. m = 100 * a + 10 * b + c))"
proof -
  have h: "File_process File
      [''user=root group=wheel mode=-rw-r--r-- atime=1 mtime=2 ctime=3 size=4 /f'']
     = Inr (Found [(''user'', StrV ''root''), (''group'', StrV ''wheel''), (''mode'', IntV 644),
          (''atime'', DatetimeV 1), (''mtime'', DatetimeV 2), (''ctime'', DatetimeV 3),
          (''size'', IntV 4)])"
    by code_simp
  from mode_three_digits[OF h] h show ?thesis by (intro conjI)
qed

theorem mode_three_digits_counterexample:
  "File_process File [''user=root group=wheel mode=-rwxrwxrwx atime=1 mtime=2 ctime=3 size=4 /f'']
     = Inr (Found [(''user'', StrV ''root''), (''group'', StrV ''wheel''), (''mode'', IntV 777),
          (''atime'', DatetimeV 1), (''mtime'', DatetimeV 2), (''ctime'', DatetimeV 3),
          (''size'', IntV 4)])
   \<and> \<not> (777 :: int) \<le> 511"
  by code_simp

subsection \<open>Malformed fields\<close>

text \<open>
  C3 (as amended): on a line of the stat format whose field texts hold no whitespace and no
  \<^verbatim>\<open>=\<close>, whose mode begins with a flag of \<^verbatim>\<open>FLAG_TO_TYPE\<close> and whose integer
  timestamps are in the range of a datetime (and, for a link read by the Link fact, whose
  filename splits on \<^verbatim>\<open>' -> '\<close> into two pieces), \<^verbatim>\<open>File.process\<close> does not raise: it
  returns absent or the record, in which a permission group that is not canonical is the
  digit 0 and a size or timestamp that is not an integer is kept as the raw string.
\<close>

theorem stat_line_parse:
  assumes "plain u" "plain g" "plain (flag # perms)" "plain a" "plain mt" "plain c" "plain s"
    and "n \<noteq> []" "\<not> is_space (hd n)"
    and "FLAG_TO_TYPE flag = Some t" "timestamp_ok a" "timestamp_ok mt" "timestamp_ok c"
    and "t = Link \<and> fact_type = Link \<longrightarrow> py_split n '' -> '' = [f, target]"
  shows "File_process fact_type [stat_line u g (flag # perms) a mt c s n] =
     Inr (if t \<noteq> fact_type then Absent
          else Found (stat_data u g perms a mt c s
                 @ (if t = Link then [(''link_target'', StrV (py_strip target [CHR 0x27]))]
                    else [])))"
  using File_process_stat_line[OF assms(1-13), of fact_type] assms(14) by auto

theorem stat_line_parse_witness:
  "plain ''root'' \<and> plain ''wheel'' \<and> plain ''-rwsr-xr-x'' \<and> plain ''lrwsr-xr-x''
   \<and> plain ''x'' \<and> plain ''2'' \<and> plain ''3'' \<and> plain ''4k''
   \<and> ''/f'' \<noteq> [] \<and> \<not> is_space (hd ''/f'')
   \<and> ''/a -> /b'' \<noteq> [] \<and> \<not> is_space (hd ''/a -> /b'')
   \<and> FLAG_TO_TYPE (CHR ''-'') = Some File \<and> FLAG_TO_TYPE (CHR ''l'') = Some Link
   \<and> timestamp_ok ''x'' \<and> timestamp_ok ''2'' \<and> timestamp_ok ''3''
   \<and> File \<noteq> Link \<and> py_split ''/a -> /b'' '' -> '' = [''/a'', ''/b'']
   \<and> File_process File
        [''user=root group=wheel mode=-rwsr-xr-x atime=x mtime=2 ctime=3 size=4k /f'']
      = Inr (Found [(''user'', StrV ''root''), (''group'', StrV ''wheel''), (''mode'', IntV 55),
          (''atime'', StrV ''x''), (''mtime'', DatetimeV 2), (''ctime'', DatetimeV 3),
          (''size'', StrV ''4k'')])
   \<and> File_process Link
        [''user=root group=wheel mode=lrwsr-xr-x atime=x mtime=2 ctime=3 size=4k /a -> /b'']
      = Inr (Found [(''user'', StrV ''root''), (''group'', StrV ''wheel''), (''mode'', IntV 55),
          (''atime'', StrV ''x''), (''mtime'', DatetimeV 2), (''ctime'', DatetimeV 3),
          (''size'', StrV ''4k''), (''link_target'', StrV ''/b'')])"
proof -
  have p: "plain ''root''" "plain ''wheel''" "plain (CHR ''-'' # ''rwsr-xr-x'')" "plain ''x''"
    "plain ''2''" "plain ''3''" "plain ''4k''" "plain (CHR ''l'' # ''rwsr-xr-x'')"
    by (simp_all add: plain_def is_space_def)
  have n: "''/f'' \<noteq> []" "\<not> is_space (hd ''/f'')" by (simp_all add: is_space_def)
  have nl: "''/a -> /b'' \<noteq> []" "\<not> is_space (hd ''/a -> /b'')"
    by (simp_all add: is_space_def)
  have fl: "FLAG_TO_TYPE (CHR ''-'') = Some File" by (simp add: FLAG_TO_TYPE_def)
  have ll: "FLAG_TO_TYPE (CHR ''l'') = Some Link" by (simp add: FLAG_TO_TYPE_def)
  have ts: "timestamp_ok ''x''" "timestamp_ok ''2''" "timestamp_ok ''3''" by code_simp+
  have ne: "File \<noteq> Link" by simp
  have sp: "py_split ''/a -> /b'' '' -> '' = [''/a'', ''/b'']" by code_simp
  have st: "py_strip ''/b'' [CHR 0x27] = ''/b''" by code_simp
  have sd: "stat_data ''root'' ''wheel'' ''rwsr-xr-x'' ''x'' ''2'' ''3'' ''4k''
      = [(''user'', StrV ''root''), (''group'', StrV ''wheel''), (''mode'', IntV 55),
          (''atime'', StrV ''x''), (''mtime'', DatetimeV 2), (''ctime'', DatetimeV 3),
          (''size'', StrV ''4k'')]"
    by code_simp
  have sl: "stat_line ''root'' ''wheel'' (CHR ''-'' # ''rwsr-xr-x'') ''x'' ''2'' ''3'' ''4k'' ''/f''
      = ''user=root group=wheel mode=-rwsr-xr-x atime=x mtime=2 ctime=3 size=4k /f''"
    "stat_line ''root'' ''wheel'' (CHR ''l'' # ''rwsr-xr-x'') ''x'' ''2'' ''3'' ''4k'' ''/a -> /b''
      = ''user=root group=wheel mode=lrwsr-xr-x atime=x mtime=2 ctime=3 size=4k /a -> /b''"
    by (simp_all add: stat_line_def)
  have a: "File_process File
        [''user=root group=wheel mode=-rwsr-xr-x atime=x mtime=2 ctime=3 size=4k /f'']
      = Inr (Found [(''user'', StrV ''root''), (''group'', StrV ''wheel''), (''mode'', IntV 55),
          (''atime'', StrV ''x''), (''mtime'', DatetimeV 2), (''ctime'', DatetimeV 3),
          (''size'', StrV ''4k'')])"
    using stat_line_parse[OF p(1,2,3,4,5,6,7) n fl ts, of File "''/a''" "''/b''"]
    by (simp add: sd sl)
  have b: "File_process Link
        [''user=root group=wheel mode=lrwsr-xr-x atime=x mtime=2 ctime=3 size=4k /a -> /b'']
      = Inr (Found [(''user'', StrV ''root''), (''group'', StrV ''wheel''), (''mode'', IntV 55),
          (''atime'', StrV ''x''), (''mtime'', DatetimeV 2), (''ctime'', DatetimeV 3),
          (''size'', StrV ''4k''), (''link_target'', StrV ''/b'')])"
    using stat_line_parse[OF p(1,2,8,4,5,6,7) nl ll ts, of Link "''/a''" "''/b''"] sp
    by (simp add: sd sl st)
  have q: "plain ''-rwsr-xr-x''" "plain ''lrwsr-xr-x''" using p(3,8) by simp_all
  from p(1,2) q p(4-7) n nl fl ll ts ne sp a b show ?thesis by (intro conjI)
qed

theorem stat_line_parse_counterexample:
  "File_process File
     [''user=root group=wheel mode=?rwxr-xr-x atime=1 mtime=2 ctime=3 size=4 /f'']
     = Inl KeyError
   \<and> File_process File
     [''user=root group=domain users mode=-rwxr-xr-x atime=1 mtime=2 ctime=3 size=4 /f'']
     = Inl ValueError"
  by code_simp

subsection \<open>Type filter\<close>



subsection \<open>Link target\<close>




subsection \<open>ChecksumFactFamily\<close>

text \<open>
  C5: the second pattern of \<^verbatim>\<open>Md5File\<close> spells \<^verbatim>\<open>SHA256\<close>, so after the command for
  \<^verbatim>\<open>/tmp/x\<close> the BSD line \<^verbatim>\<open>MD5 (/tmp/x) = <digest>\<close> gives \<^verbatim>\<open>None\<close>, while the same
  line labelled \<^verbatim>\<open>SHA256\<close> gives the digest (\<open>id\<close> is an escape that leaves the path as
  it is).
\<close>

theorem Md5File_bsd_line_rejected:
  "Md5File_process (snd (Md5File_command id \<lparr>name = None\<rparr> ''/tmp/x''))
     [''MD5 (/tmp/x) = d41d8cd98f00b204e9800998ecf8427e''] = Some (Inr None)
   \<and> Md5File_process (snd (Md5File_command id \<lparr>name = None\<rparr> ''/tmp/x''))
     [''SHA256 (/tmp/x) = d41d8cd98f00b204e9800998ecf8427e'']
       = Some (Inr (Some ''d41d8cd98f00b204e9800998ecf8427e''))"
  by code_simp

text \<open>
  C7: after the command for \<^verbatim>\<open>/tmp/x\<close>, \<^verbatim>\<open>Sha1File\<close> returns the digest of the line
  \<^verbatim>\<open><digest>  /tmp/x\<close>, and after the command for \<^verbatim>\<open>/tmp/y\<close> it returns \<^verbatim>\<open>None\<close>; but
  the path is put into the pattern as it is, so after the command for the different path
  \<^verbatim>\<open>/tmp/.\<close>, whose dot stands for any character, the digest is returned as well.
\<close>

theorem Sha1File_other_path_accepted:
  "Sha1File_process (snd (Sha1File_command id \<lparr>name = None\<rparr> ''/tmp/x''))
     [''da39a3ee5e6b4b0d3255bfef95601890afd80709  /tmp/x'']
       = Some (Inr (Some ''da39a3ee5e6b4b0d3255bfef95601890afd80709''))
   \<and> Sha1File_process (snd (Sha1File_command id \<lparr>name = None\<rparr> ''/tmp/y''))
     [''da39a3ee5e6b4b0d3255bfef95601890afd80709  /tmp/x''] = Some (Inr None)
   \<and> Sha1File_process (snd (Sha1File_command id \<lparr>name = None\<rparr> ''/tmp/.''))
     [''da39a3ee5e6b4b0d3255bfef95601890afd80709  /tmp/x'']
       = Some (Inr (Some ''da39a3ee5e6b4b0d3255bfef95601890afd80709''))"
  by code_simp

subsection \<open>ContentSearchFact\<close>

text \<open>
  C6 (as amended): after the command for a path, \<^verbatim>\<open>FindInFile.process\<close> returns the empty
  list on the one line that is the path's sentinel, the output itself on an output that
  is not empty and whose first line is not the sentinel, and the empty list (not
  \<^verbatim>\<open>None\<close>) on an empty output.
\<close>

theorem FindInFile_process_cases:
  "FindInFile_process (snd (FindInFile_command escape quote self path pattern))
      [''__pyinfra_exists_'' @ escape path] = Inr (Some [])
   \<and> (output \<noteq> [] \<and> hd output \<noteq> ''__pyinfra_exists_'' @ escape path \<longrightarrow>
        FindInFile_process (snd (FindInFile_command escape quote self path pattern)) output
          = Inr (Some output))
   \<and> FindInFile_process (snd (FindInFile_command escape quote self path pattern)) []
        = Inr (Some [])"
  by (cases "output") (simp_all add: FindInFile_process_def FindInFile_command_def Let_def)

theorem FindInFile_process_cases_witness:
  "FindInFile_process (snd (FindInFile_command id id \<lparr>name = None\<rparr> ''/tmp/x'' ''foo''))
      [''__pyinfra_exists_/tmp/x''] = Inr (Some [])
   \<and> [''foo 1'', ''foo 2''] \<noteq> [] \<and> hd [''foo 1'', ''foo 2''] \<noteq> ''__pyinfra_exists_/tmp/x''
   \<and> FindInFile_process (snd (FindInFile_command id id \<lparr>name = None\<rparr> ''/tmp/x'' ''foo''))
        [''foo 1'', ''foo 2''] = Inr (Some [''foo 1'', ''foo 2''])
   \<and> FindInFile_process (snd (FindInFile_command id id \<lparr>name = None\<rparr> ''/tmp/x'' ''foo'')) []
        = Inr (Some [])"
  using FindInFile_process_cases[of id id "\<lparr>name = None\<rparr>" "''/tmp/x''" "''foo''"
      "[''foo 1'', ''foo 2'']"]
  by simp

theorem FindInFile_process_cases_counterexample:
  "FindInFile_process (snd (FindInFile_command id id \<lparr>name = None\<rparr> ''/tmp/x'' ''foo'')) []
      = Inr (Some [])
   \<and> (Inr (Some []) :: error + string list option) \<noteq> Inr None
   \<and> FindInFile_process (snd (FindInFile_command id id \<lparr>name = None\<rparr> ''/tmp/x'' ''foo''))
        [''__pyinfra_exists_/tmp/x'', ''foo 2''] = Inr (Some [])
   \<and> [''__pyinfra_exists_/tmp/x'', ''foo 2''] \<noteq> [''__pyinfra_exists_/tmp/x'']
   \<and> (Inr (Some []) :: error + string list option)
        \<noteq> Inr (Some [''__pyinfra_exists_/tmp/x'', ''foo 2''])"
  by (simp add: FindInFile_process_def FindInFile_command_def)

text \<open>
  C10: after the command for a path, an output whose first line is the path's sentinel
  gives the empty list whatever lines follow, so also when that first line is a line of
  the file that grep matched.
\<close>

theorem sentinel_first_line_wins:
  "FindInFile_process (snd (FindInFile_command escape quote self path pattern))
     ((''__pyinfra_exists_'' @ escape path) # rest) = Inr (Some [])"
  by (simp add: FindInFile_process_def FindInFile_command_def Let_def)

subsection \<open>The parse context\<close>

text \<open>
  C9 (as amended): \<^verbatim>\<open>command\<close> stores the escaped path in the instance and
  \<^verbatim>\<open>process\<close> reads it from there, so after \<^verbatim>\<open>command(p1)\<close> and \<^verbatim>\<open>command(p2)\<close> on one
  instance \<^verbatim>\<open>process\<close> gives what it gives after \<^verbatim>\<open>command(p2)\<close> alone, on any instance.
\<close>

theorem last_command_decides:
  "Sha1File_process (snd (Sha1File_command escape (snd (Sha1File_command escape self p1)) p2))
       output
     = Sha1File_process (snd (Sha1File_command escape self' p2)) output
   \<and> Sha256File_process
       (snd (Sha256File_command escape (snd (Sha256File_command escape self p1)) p2)) output
     = Sha256File_process (snd (Sha256File_command escape self' p2)) output
   \<and> Md5File_process (snd (Md5File_command escape (snd (Md5File_command escape self p1)) p2))
       output
     = Md5File_process (snd (Md5File_command escape self' p2)) output
   \<and> FindInFile_process
       (snd (FindInFile_command escape quote
          (snd (FindInFile_command escape quote self p1 pat1)) p2 pat2)) output
     = FindInFile_process (snd (FindInFile_command escape quote self' p2 pat2)) output"
  by (simp add: Sha1File_process_def Sha256File_process_def Md5File_process_def
      checksum_process_def FindInFile_process_def Sha1File_command_def Sha256File_command_def
      Md5File_command_def FindInFile_command_def Let_def split: list.splits)

theorem last_command_decides_counterexample:
  "Sha1File_process
     (snd (Sha1File_command id (snd (Sha1File_command id \<lparr>name = None\<rparr> ''/tmp/x'')) ''/tmp/y''))
     [''da39a3ee5e6b4b0d3255bfef95601890afd80709  /tmp/x''] = Some (Inr None)
   \<and> Sha1File_process (snd (Sha1File_command id \<lparr>name = None\<rparr> ''/tmp/x''))
     [''da39a3ee5e6b4b0d3255bfef95601890afd80709  /tmp/x'']
       = Some (Inr (Some ''da39a3ee5e6b4b0d3255bfef95601890afd80709''))
   \<and> FindInFile_process
       (snd (FindInFile_command id id
          (snd (FindInFile_command id id \<lparr>name = None\<rparr> ''/tmp/x'' ''foo'')) ''/tmp/y'' ''foo''))
       [''__pyinfra_exists_/tmp/x''] = Inr (Some [''__pyinfra_exists_/tmp/x''])
   \<and> FindInFile_process (snd (FindInFile_command id id \<lparr>name = None\<rparr> ''/tmp/x'' ''foo''))
       [''__pyinfra_exists_/tmp/x''] = Inr (Some [])"
  by code_simp

end
